theory Spec2Isabelle
  imports Main
begin

section \<open>The page-rendering middleware \<^verbatim>\<open>src/middleware/render-page.js\<close>\<close>

text \<open>
  The middleware \<^verbatim>\<open>renderPage(req, res, next)\<close> is embedded as a function from the
  request and the response handle to an outcome: how the call completed, the response
  handle and the context as the call left them, and the calls made to the collaborators,
  in order. The collaborators that are imported from other modules (the page renderer,
  the mini-TOC extractor, the connection monitor, the homepage pattern, the version
  catalog, the language variants, the date formatting) are fields of an environment.
\<close>

subsection \<open>Values and strings\<close>

text \<open>JSON-like JavaScript values, as \<^verbatim>\<open>res.json\<close> receives them.\<close>

datatype jsval =
    JUndefined
  | JNull
  | JBool bool
  | JNum int
  | JStr string
  | JArr "jsval list"
  | JObj "(string \<times> jsval) list"

text \<open>What a collaborator throws, or a rejected promise carries.\<close>

datatype error = TypeError string | UpstreamFailure string

text \<open>\<^verbatim>\<open>String.prototype.endsWith\<close> and \<^verbatim>\<open>String.prototype.includes\<close>.\<close>

definition endsWith :: "string \<Rightarrow> string \<Rightarrow> bool" where
  "endsWith s suf = (length suf \<le> length s \<and> drop (length s - length suf) s = suf)"

fun str_includes :: "string \<Rightarrow> string \<Rightarrow> bool" where
  "str_includes [] sub = (sub = [])"
| "str_includes (x # xs) sub = (take (length sub) (x # xs) = sub \<or> str_includes xs sub)"

text \<open>JavaScript truthiness of a value that is a string or undefined.\<close>

fun truthy :: "string option \<Rightarrow> bool" where
  "truthy None = False"
| "truthy (Some s) = (s \<noteq> [])"

subsection \<open>The data model\<close>

record Page =
  titlePlainText :: string
  effectiveDate :: "string option"
  showMiniToc :: bool
  miniTocMaxHeadingLevel :: nat
  languageVariants :: "jsval option"
  fullTitle :: "string option"

text \<open>
  The fields of \<^verbatim>\<open>req.context\<close> that the middleware reads or writes.
  \<open>github_docs\<close> is \<^verbatim>\<open>context.site.data.ui.header.github_docs\<close>; the three
  prerendered fields are the \<^verbatim>\<open>html\<close> of
  \<^verbatim>\<open>context.graphql.prerendered...ForCurrentVersion\<close>.
\<close>

record Context =
  page :: "Page option"
  currentVersion :: string
  redirectNotFound :: "string option"
  github_docs :: string
  prerenderedObjectsForCurrentVersion :: string
  prerenderedInputObjectsForCurrentVersion :: string
  prerenderedMutationsForCurrentVersion :: string
  renderedPage :: "string option"
  miniTocItems :: "jsval option"

text \<open>
  The request. Query values are strings, as the parameter \<^verbatim>\<open>json\<close> is
  documented; a bare \<^verbatim>\<open>?json\<close> is the empty string. A character of a
  string stands for one of its UTF-16 code units, so that \<open>length\<close> is
  \<^verbatim>\<open>.length\<close>.
\<close>

record Request =
  "context" :: Context
  pagePath :: "string option"
  path :: string
  "method" :: string
  query :: "string \<rightharpoonup> string"

record Response =
  headers :: "string \<rightharpoonup> string"

text \<open>An entry of \<^verbatim>\<open>allVersions\<close>.\<close>

record Version =
  versionTitle :: string

text \<open>
  The collaborators and the configuration. \<open>isConnectionDropped e n\<close> is the answer
  of the connection monitor at its \<open>n\<close>-th consultation (from 0). \<open>reflect e c\<close>
  is the context object as the tree of own properties that \<^verbatim>\<open>Object.keys\<close> and
  lodash's \<^verbatim>\<open>get\<close> traverse. \<open>cache_directive e n\<close> is the directive that
  a cache-control policy built for max-age \<open>n\<close> sets.
\<close>

record env =
  NODE_ENV :: "string option"
  cache_directive :: "nat \<Rightarrow> string"
  page_render :: "Context \<Rightarrow> error + string"
  getMiniTocItems :: "string option \<Rightarrow> nat \<Rightarrow> string \<Rightarrow> error + jsval"
  getLanguageVariants :: "string \<Rightarrow> jsval"
  isConnectionDropped :: "nat \<Rightarrow> bool"
  homepagePath :: "string \<Rightarrow> bool"
  allVersions :: "string \<rightharpoonup> Version"
  toUTCString :: "string \<Rightarrow> string"
  reflect :: "Context \<Rightarrow> (string \<times> jsval) list"

subsection \<open>Effects\<close>

text \<open>
  The terminal actions: \<^verbatim>\<open>nextApp.render404(req, res)\<close>,
  \<^verbatim>\<open>res.status(n).send(body)\<close>, \<^verbatim>\<open>res.json(v)\<close> and
  \<^verbatim>\<open>nextHandleRequest(req, res)\<close>.
\<close>

datatype terminal =
    RespondNotFound
  | RespondSend nat string
  | RespondJson jsval
  | Delegate

text \<open>
  How a call of the middleware ends: with a terminal action, with a bare
  \<^verbatim>\<open>return\<close> after a dropped connection, or with an exception.
\<close>

datatype completion = Responded terminal | Stopped | Threw error

text \<open>The calls to collaborators that the claims speak about.\<close>

datatype call =
    ConsoleError string
  | GetLanguageVariants string
  | IsConnectionDropped
  | PageRender string
  | GetMiniTocItems "string option" nat string

record outcome =
  completion :: completion
  res_out :: Response
  ctx_out :: Context
  calls :: "call list"

subsection \<open>Cache-control policies\<close>

text \<open>
  Modelled from the spec: \<^verbatim>\<open>cacheControlFactory\<close> of
  \<^verbatim>\<open>./cache-control.js\<close> is not under src/. The spec has a cache policy as
  a stateless function mapping a response target to a cache-control directive, set in the
  \<^verbatim>\<open>Cache-Control\<close> header; a policy built for max-age 0 sets the no-cache
  directive.
\<close>

definition cacheControlFactory :: "env \<Rightarrow> nat \<Rightarrow> Response \<Rightarrow> Response" where
  "cacheControlFactory e maxAge rs =
     rs\<lparr>headers := (headers rs)(''Cache-Control'' \<mapsto> cache_directive e maxAge)\<rparr>"

definition no_cache_directive :: "env \<Rightarrow> string" where
  "no_cache_directive e = cache_directive e 0"

definition noCacheControl :: "env \<Rightarrow> Response \<Rightarrow> Response" where
  "noCacheControl e = cacheControlFactory e 0"

definition htmlCacheControl :: "env \<Rightarrow> Response \<Rightarrow> Response" where
  "htmlCacheControl e = cacheControlFactory e 0"

definition setHeader :: "string \<Rightarrow> string \<Rightarrow> Response \<Rightarrow> Response" where
  "setHeader name v rs = rs\<lparr>headers := (headers rs)(name \<mapsto> v)\<rparr>"

subsection \<open>Dotted-path lookup\<close>

text \<open>
  Modelled from the spec: \<^verbatim>\<open>get\<close> is imported from lodash-es, which is not
  under src/. The spec has it resolve a dotted path within the context, as a recursive
  lookup over a tree-like value (object, array or primitive), an unresolved path giving
  an empty result (undefined) rather than an error. A segment of the path selects the
  property of that name in an object and the element of that index in an array; nothing
  is below a primitive. The indices of an array are the decimal numerals without a
  leading zero.
\<close>

fun split_on :: "char \<Rightarrow> string \<Rightarrow> string list" where
  "split_on d [] = [[]]"
| "split_on d (x # xs) =
     (if x = d then [] # split_on d xs
      else (case split_on d xs of
              [] \<Rightarrow> [[x]]
            | w # ws \<Rightarrow> (x # w) # ws))"

definition digit :: "char \<Rightarrow> nat option" where
  "digit c =
     map_of [(CHR ''0'', 0), (CHR ''1'', 1), (CHR ''2'', 2), (CHR ''3'', 3), (CHR ''4'', 4),
             (CHR ''5'', 5), (CHR ''6'', 6), (CHR ''7'', 7), (CHR ''8'', 8), (CHR ''9'', 9)] c"

fun digits_val :: "string \<Rightarrow> nat \<Rightarrow> nat option" where
  "digits_val [] acc = Some acc"
| "digits_val (c # cs) acc =
     (case digit c of
        None \<Rightarrow> None
      | Some d \<Rightarrow> digits_val cs (10 * acc + d))"

fun array_index :: "string \<Rightarrow> nat option" where
  "array_index [] = None"
| "array_index [c] = digit c"
| "array_index (c # d # cs) =
     (if c = CHR ''0'' then None else digits_val (c # d # cs) 0)"

fun own_prop :: "jsval \<Rightarrow> string \<Rightarrow> jsval option" where
  "own_prop (JObj kvs) k = map_of kvs k"
| "own_prop (JArr xs) k =
     (case array_index k of
        None \<Rightarrow> None
      | Some n \<Rightarrow> if n < length xs then Some (xs ! n) else None)"
| "own_prop _ k = None"

fun resolve :: "jsval \<Rightarrow> string list \<Rightarrow> jsval option" where
  "resolve v [] = Some v"
| "resolve v (k # ks) =
     (case own_prop v k of
        None \<Rightarrow> None
      | Some v' \<Rightarrow> resolve v' ks)"

definition get :: "jsval \<Rightarrow> string \<Rightarrow> jsval" where
  "get obj p =
     (case resolve obj (split_on (CHR ''.'') p) of
        None \<Rightarrow> JUndefined
      | Some v \<Rightarrow> v)"

subsection \<open>The middleware\<close>

text \<open>\<^verbatim>\<open>req.pagePath || req.path\<close>.\<close>

definition path_of :: "Request \<Rightarrow> string" where
  "path_of r = (if truthy (pagePath r) then the (pagePath r) else path r)"

text \<open>
  \<^verbatim>\<open>buildRenderedPage(req)\<close>: the calls it makes and what it returns or throws.
  The timer of \<^verbatim>\<open>statsd.asyncTimer\<close> is tagged with the path.
\<close>

definition buildRenderedPage :: "env \<Rightarrow> Request \<Rightarrow> call list \<times> (error + string)" where
  "buildRenderedPage e r =
     (let c = context r; p = path_of r in
      case page c of
        None \<Rightarrow> ([], Inl (TypeError ''page is undefined''))
      | Some pg \<Rightarrow>
          ([PageRender p],
           case page_render e c of
             Inl err \<Rightarrow> Inl err
           | Inr rendered \<Rightarrow>
               if endsWith p ''graphql/reference/objects''
               then Inr (rendered @ prerenderedObjectsForCurrentVersion c)
               else if endsWith p ''graphql/reference/input-objects''
               then Inr (rendered @ prerenderedInputObjectsForCurrentVersion c)
               else if endsWith p ''graphql/reference/mutations''
               then Inr (rendered @ prerenderedMutationsForCurrentVersion c)
               else Inr rendered))"

text \<open>\<^verbatim>\<open>buildMiniTocItems(req)\<close>; \<open>None\<close> is the bare \<^verbatim>\<open>return\<close>.\<close>

definition buildMiniTocItems :: "env \<Rightarrow> Request \<Rightarrow> call list \<times> (error + jsval option)" where
  "buildMiniTocItems e r =
     (let c = context r in
      case page c of
        None \<Rightarrow> ([], Inl (TypeError ''page is undefined''))
      | Some pg \<Rightarrow>
          if \<not> showMiniToc pg then ([], Inr None)
          else
            ([GetMiniTocItems (renderedPage c) (miniTocMaxHeadingLevel pg) []],
             case getMiniTocItems e (renderedPage c) (miniTocMaxHeadingLevel pg) [] of
               Inl err \<Rightarrow> Inl err
             | Inr items \<Rightarrow> Inr (Some items)))"

text \<open>Lines 102 to 123: the string assigned to \<^verbatim>\<open>page.fullTitle\<close>.\<close>

definition composeTitle :: "env \<Rightarrow> Request \<Rightarrow> Page \<Rightarrow> string" where
  "composeTitle e r pg =
     (let c = context r; t = titlePlainText pg in
      if \<not> homepagePath e (path_of r) then
        (if currentVersion c = ''free-pro-team@latest'' \<or> allVersions e (currentVersion c) = None
         then t @ '' - '' @ github_docs c
         else
           (let vt = versionTitle (the (allVersions e (currentVersion c)));
                t1 = t @ '' - '';
                t2 = (if \<not> str_includes vt ''GitHub'' then t1 @ ''GitHub '' else t1)
            in t2 @ vt @ '' Docs''))
      else t)"

text \<open>Lines 129 to 140: the value passed to \<^verbatim>\<open>res.json\<close>.\<close>

definition advisory :: string where
  "advisory = ''The full context object is too big to display! Try one of the individual keys below, e.g. ?json=page. You can also access nested props like ?json=site.data.reusables''"

definition keysListing :: "env \<Rightarrow> Context \<Rightarrow> jsval" where
  "keysListing e c =
     JObj [(''message'', JStr advisory), (''keys'', JArr (map (JStr \<circ> fst) (reflect e c)))]"

definition debugJson :: "env \<Rightarrow> Context \<Rightarrow> string \<Rightarrow> jsval" where
  "debugJson e c q =
     (if length q > 1 then get (JObj (reflect e c)) q else keysListing e c)"

definition redirectDiagnostic :: "string \<Rightarrow> string" where
  "redirectDiagnostic target =
     [CHR 0x0A] @ ''Tried to redirect to '' @ target @ '', but that page was not found.'' @ [CHR 0x0A]"

text \<open>\<^verbatim>\<open>renderPage(req, res, next)\<close>.\<close>

definition renderPage :: "env \<Rightarrow> Request \<Rightarrow> Response \<Rightarrow> outcome" where
  "renderPage e r rs =
     (let c = context r; p = path_of r in
      case page c of
        None \<Rightarrow>
          \<lparr>completion = Responded RespondNotFound,
           res_out = noCacheControl e rs,
           ctx_out = c,
           calls = (if NODE_ENV e \<noteq> Some ''test'' \<and> truthy (redirectNotFound c)
                    then [ConsoleError (redirectDiagnostic (the (redirectNotFound c)))]
                    else [])\<rparr>
      | Some pg \<Rightarrow>
          if method r = ''HEAD'' then
            \<lparr>completion = Responded (RespondSend 200 []),
             res_out = noCacheControl e rs,
             ctx_out = c,
             calls = []\<rparr>
          else
            (let rs1 = htmlCacheControl e rs;
                 rs2 = (if truthy (effectiveDate pg)
                        then setHeader ''Last-Modified'' (toUTCString e (the (effectiveDate pg))) rs1
                        else rs1);
                 pg1 = pg\<lparr>languageVariants := Some (getLanguageVariants e p)\<rparr>;
                 c1 = c\<lparr>page := Some pg1\<rparr>;
                 k1 = [GetLanguageVariants p, IsConnectionDropped]
             in
             if isConnectionDropped e 0 then
               \<lparr>completion = Stopped, res_out = rs2, ctx_out = c1, calls = k1\<rparr>
             else
               (case buildRenderedPage e (r\<lparr>context := c1\<rparr>) of
                  (k2, Inl err) \<Rightarrow>
                    \<lparr>completion = Threw err, res_out = rs2, ctx_out = c1, calls = k1 @ k2\<rparr>
                | (k2, Inr html) \<Rightarrow>
                    (let c2 = c1\<lparr>renderedPage := Some html\<rparr> in
                     case buildMiniTocItems e (r\<lparr>context := c2\<rparr>) of
                       (k3, Inl err) \<Rightarrow>
                         \<lparr>completion = Threw err, res_out = rs2, ctx_out = c2,
                          calls = k1 @ k2 @ k3\<rparr>
                     | (k3, Inr items) \<Rightarrow>
                         (let c3 = c2\<lparr>miniTocItems := items\<rparr>;
                              k4 = k1 @ k2 @ k3 @ [IsConnectionDropped]
                          in
                          if isConnectionDropped e 1 then
                            \<lparr>completion = Stopped, res_out = rs2, ctx_out = c3, calls = k4\<rparr>
                          else
                            (let pg2 = pg1\<lparr>fullTitle := Some (composeTitle e (r\<lparr>context := c3\<rparr>) pg1)\<rparr>;
                                 c4 = c3\<lparr>page := Some pg2\<rparr>;
                                 isRequestingJsonForDebugging =
                                   (query r ''json'' \<noteq> None \<and> NODE_ENV e \<noteq> Some ''production'')
                             in
                             if isRequestingJsonForDebugging then
                               \<lparr>completion = Responded (RespondJson (debugJson e c4 (the (query r ''json'')))),
                                res_out = rs2, ctx_out = c4, calls = k4\<rparr>
                             else
                               \<lparr>completion = Responded Delegate,
                                res_out = rs2, ctx_out = c4, calls = k4\<rparr>))))))"

subsection \<open>Sample inputs\<close>

text \<open>
  A page of an Enterprise Server version, a context, a request and an environment on
  which the theorems below are exercised.
\<close>

definition page0 :: Page where
  "page0 = \<lparr>titlePlainText = ''Objects'', effectiveDate = Some ''2022-01-01'',
            showMiniToc = True, miniTocMaxHeadingLevel = 2,
            languageVariants = None, fullTitle = None\<rparr>"

definition ctx0 :: Context where
  "ctx0 = \<lparr>page = Some page0, currentVersion = ''enterprise-server@3.5'',
           redirectNotFound = None, github_docs = ''GitHub Docs'',
           prerenderedObjectsForCurrentVersion = ''<div>objects</div>'',
           prerenderedInputObjectsForCurrentVersion = ''<div>input-objects</div>'',
           prerenderedMutationsForCurrentVersion = ''<div>mutations</div>'',
           renderedPage = None, miniTocItems = None\<rparr>"

definition req0 :: Request where
  "req0 = \<lparr>context = ctx0, pagePath = None,
           path = ''/en/enterprise-server@3.5/graphql/reference/objects'',
           method = ''GET'', query = Map.empty\<rparr>"

definition res0 :: Response where
  "res0 = \<lparr>headers = Map.empty\<rparr>"

text \<open>
  The sample environment reflects the context as the tree of its fields, under their
  names in the source and as the debugging branch finds them: by then
  \<^verbatim>\<open>renderedPage\<close> and \<^verbatim>\<open>miniTocItems\<close> have been assigned on the
  context, \<^verbatim>\<open>languageVariants\<close> and \<^verbatim>\<open>fullTitle\<close> on the page, and
  they come last.
\<close>

definition opt_val :: "jsval option \<Rightarrow> jsval" where
  "opt_val v = (case v of None \<Rightarrow> JUndefined | Some x \<Rightarrow> x)"

definition page_tree :: "Page \<Rightarrow> jsval" where
  "page_tree pg =
     JObj ([(''titlePlainText'', JStr (titlePlainText pg))]
           @ (case effectiveDate pg of None \<Rightarrow> [] | Some d \<Rightarrow> [(''effectiveDate'', JStr d)])
           @ [(''showMiniToc'', JBool (showMiniToc pg)),
              (''miniTocMaxHeadingLevel'', JNum (int (miniTocMaxHeadingLevel pg))),
              (''languageVariants'', opt_val (languageVariants pg)),
              (''fullTitle'', opt_val (map_option JStr (fullTitle pg)))])"

definition context_tree :: "Context \<Rightarrow> (string \<times> jsval) list" where
  "context_tree c =
     (case page c of None \<Rightarrow> [] | Some pg \<Rightarrow> [(''page'', page_tree pg)])
     @ [(''currentVersion'', JStr (currentVersion c))]
     @ (case redirectNotFound c of None \<Rightarrow> [] | Some t \<Rightarrow> [(''redirectNotFound'', JStr t)])
     @ [(''site'', JObj [(''data'', JObj [(''ui'', JObj [(''header'',
            JObj [(''github_docs'', JStr (github_docs c))])])])]),
        (''graphql'', JObj
           [(''prerenderedObjectsForCurrentVersion'',
               JObj [(''html'', JStr (prerenderedObjectsForCurrentVersion c))]),
            (''prerenderedInputObjectsForCurrentVersion'',
               JObj [(''html'', JStr (prerenderedInputObjectsForCurrentVersion c))]),
            (''prerenderedMutationsForCurrentVersion'',
               JObj [(''html'', JStr (prerenderedMutationsForCurrentVersion c))])]),
        (''renderedPage'', opt_val (map_option JStr (renderedPage c))),
        (''miniTocItems'', opt_val (miniTocItems c))]"

definition env0 :: env where
  "env0 = \<lparr>NODE_ENV = Some ''development'',
           cache_directive = (\<lambda>n. if n = 0 then ''private, no-store'' else ''public''),
           page_render = (\<lambda>c. Inr ''<h1>Objects</h1>''),
           getMiniTocItems = (\<lambda>html level baseId. Inr (JArr [])),
           getLanguageVariants = (\<lambda>p. JArr [JStr (''/ja'' @ drop 3 p)]),
           isConnectionDropped = (\<lambda>n. False),
           homepagePath = (\<lambda>p. p = ''/en''),
           allVersions = [''enterprise-server@3.5'' \<mapsto> \<lparr>versionTitle = ''Enterprise Server 3.5''\<rparr>],
           toUTCString = (\<lambda>d. ''Sat, 01 Jan 2022 00:00:00 GMT''),
           reflect = context_tree\<rparr>"

definition req_missing :: Request where
  "req_missing = req0\<lparr>context := ctx0\<lparr>page := None, redirectNotFound := Some ''/en/old''\<rparr>,
                      method := ''POST'', query := [''json'' \<mapsto> ''page'']\<rparr>"

definition req_head :: Request where
  "req_head = req0\<lparr>method := ''HEAD'', query := [''json'' \<mapsto> ''page'']\<rparr>"

definition req_json :: "string \<Rightarrow> Request" where
  "req_json q = req0\<lparr>query := [''json'' \<mapsto> q]\<rparr>"

definition env_production :: env where
  "env_production = env0\<lparr>NODE_ENV := Some ''production''\<rparr>"

definition env_dropped :: "nat \<Rightarrow> env" where
  "env_dropped n = env0\<lparr>isConnectionDropped := (\<lambda>k. k = n)\<rparr>"

definition req_path :: "string \<Rightarrow> Request" where
  "req_path p = req0\<lparr>path := p\<rparr>"

definition env_test :: env where
  "env_test = env0\<lparr>NODE_ENV := Some ''test''\<rparr>"

section \<open>Properties\<close>

subsection \<open>Auxiliary facts\<close>

lemma headers_noCacheControl:
  "headers (noCacheControl e rs) ''Cache-Control'' = Some (no_cache_directive e)"
  by (simp add: noCacheControl_def cacheControlFactory_def no_cache_directive_def)

lemma env0_no_cache: "no_cache_directive env0 = ''private, no-store''"
  by (simp add: no_cache_directive_def env0_def)

lemma buildRenderedPage_ok:
  assumes "page (context r) = Some pg" and "\<not> isl (page_render e (context r))"
  shows "\<exists>html. buildRenderedPage e r = ([PageRender (path_of r)], Inr html)"
  using assms by (cases "page_render e (context r)") (simp_all add: buildRenderedPage_def Let_def)

lemma buildMiniTocItems_ok:
  assumes "page (context r) = Some pg"
    and "\<And>html level baseId. \<not> isl (getMiniTocItems e html level baseId)"
  shows "\<exists>k items. buildMiniTocItems e r = (k, Inr items)"
proof (cases "getMiniTocItems e (renderedPage (context r)) (miniTocMaxHeadingLevel pg) []")
  case (Inl a)
  with assms(2) [of "renderedPage (context r)" "miniTocMaxHeadingLevel pg" "[]"] show ?thesis
    by simp
next
  case (Inr b)
  with assms(1) show ?thesis by (simp add: buildMiniTocItems_def Let_def)
qed

text \<open>
  The full pipeline: with a page, a method other than HEAD, a connection that is alive at
  both checkpoints and collaborators that do not fail, the middleware ends with the JSON
  of the debugging branch or with the delegation, and the title is on the page.
\<close>

lemma renderPage_full:
  assumes pg: "page (context r) = Some pg" and m: "method r \<noteq> ''HEAD''"
    and d0: "\<not> isConnectionDropped e 0" and d1: "\<not> isConnectionDropped e 1"
    and rok: "\<And>c. \<not> isl (page_render e c)"
    and mok: "\<And>html level baseId. \<not> isl (getMiniTocItems e html level baseId)"
  shows "completion (renderPage e r rs) =
           (if query r ''json'' \<noteq> None \<and> NODE_ENV e \<noteq> Some ''production''
            then Responded (RespondJson (debugJson e (ctx_out (renderPage e r rs)) (the (query r ''json''))))
            else Responded Delegate)"
    and "\<exists>pg'. page (ctx_out (renderPage e r rs)) = Some pg'
            \<and> titlePlainText pg' = titlePlainText pg
            \<and> fullTitle pg' = Some (composeTitle e r pg')"
proof -
  let ?c1 = "(context r)\<lparr>page := Some (pg\<lparr>languageVariants := Some (getLanguageVariants e (path_of r))\<rparr>)\<rparr>"
  obtain html where h: "buildRenderedPage e (r\<lparr>context := ?c1\<rparr>) = ([PageRender (path_of (r\<lparr>context := ?c1\<rparr>))], Inr html)"
    using buildRenderedPage_ok [of "r\<lparr>context := ?c1\<rparr>" _ e] rok by auto
  let ?c2 = "?c1\<lparr>renderedPage := Some html\<rparr>"
  obtain k items where i: "buildMiniTocItems e (r\<lparr>context := ?c2\<rparr>) = (k, Inr items)"
    using buildMiniTocItems_ok [of "r\<lparr>context := ?c2\<rparr>" _ e] mok by auto
  show "completion (renderPage e r rs) =
           (if query r ''json'' \<noteq> None \<and> NODE_ENV e \<noteq> Some ''production''
            then Responded (RespondJson (debugJson e (ctx_out (renderPage e r rs)) (the (query r ''json''))))
            else Responded Delegate)"
    using pg m d0 d1 h i by (simp add: renderPage_def Let_def)
  show "\<exists>pg'. page (ctx_out (renderPage e r rs)) = Some pg'
            \<and> titlePlainText pg' = titlePlainText pg
            \<and> fullTitle pg' = Some (composeTitle e r pg')"
    using pg m d0 d1 h i by (simp add: renderPage_def Let_def composeTitle_def path_of_def)
qed

subsection \<open>The missing page\<close>

text \<open>
  Claim C1. When the resolved page is absent, whatever the method and the query, the
  middleware applies the no-cache policy and ends with the not-found action; the context
  is left as it was (no title is written), and neither the page renderer nor the
  mini-TOC extractor is called.
\<close>

theorem missing_page_not_found:
  assumes "page (context r) = None"
  shows "completion (renderPage e r rs) = Responded RespondNotFound
       \<and> res_out (renderPage e r rs) = noCacheControl e rs
       \<and> headers (res_out (renderPage e r rs)) ''Cache-Control'' = Some (no_cache_directive e)
       \<and> ctx_out (renderPage e r rs) = context r
       \<and> (\<forall>p. PageRender p \<notin> set (calls (renderPage e r rs)))
       \<and> (\<forall>html level baseId. GetMiniTocItems html level baseId \<notin> set (calls (renderPage e r rs)))"
  using assms by (simp add: renderPage_def Let_def headers_noCacheControl)

theorem missing_page_not_found_witness:
  "page (context req_missing) = None
   \<and> method req_missing = ''POST''
   \<and> query req_missing ''json'' = Some ''page''
   \<and> completion (renderPage env0 req_missing res0) = Responded RespondNotFound
   \<and> headers (res_out (renderPage env0 req_missing res0)) ''Cache-Control'' = Some ''private, no-store''"
proof -
  have h: "page (context req_missing) = None"
    by (simp add: req_missing_def)
  have q: "method req_missing = ''POST'' \<and> query req_missing ''json'' = Some ''page''"
    by (simp add: req_missing_def)
  show ?thesis
    using missing_page_not_found [OF h, of env0 res0] h q
    by (simp add: env0_no_cache headers_noCacheControl)
qed

subsection \<open>HEAD requests\<close>

text \<open>
  Claim C2. A HEAD request with a page present ends with status 200 and a body of length
  zero, under the no-cache policy; the context is left as it was and no collaborator is
  called, so neither rendering nor mini-TOC work is done.
\<close>

theorem head_request_empty:
  assumes "page (context r) = Some pg" and "method r = ''HEAD''"
  shows "(\<exists>body. completion (renderPage e r rs) = Responded (RespondSend 200 body) \<and> length body = 0)
       \<and> res_out (renderPage e r rs) = noCacheControl e rs
       \<and> headers (res_out (renderPage e r rs)) ''Cache-Control'' = Some (no_cache_directive e)
       \<and> ctx_out (renderPage e r rs) = context r
       \<and> calls (renderPage e r rs) = []"
  using assms by (simp add: renderPage_def Let_def headers_noCacheControl)

theorem head_request_empty_witness:
  "page (context req_head) = Some page0
   \<and> method req_head = ''HEAD''
   \<and> completion (renderPage env0 req_head res0) = Responded (RespondSend 200 [])
   \<and> calls (renderPage env0 req_head res0) = []
   \<and> headers (res_out (renderPage env0 req_head res0)) ''Cache-Control'' = Some ''private, no-store''"
proof -
  have h: "page (context req_head) = Some page0" "method req_head = ''HEAD''"
    by (simp_all add: req_head_def req0_def ctx0_def)
  show ?thesis
    using head_request_empty [OF h, of env0 res0] h
    by (auto simp add: env0_no_cache headers_noCacheControl)
qed

subsection \<open>The debugging branch in production\<close>

lemma renderPage_no_json:
  assumes "NODE_ENV e = Some ''production'' \<or> query r ''json'' = None"
  shows "completion (renderPage e r rs) \<noteq> Responded (RespondJson v)"
proof (cases "page (context r)")
  case None
  then show ?thesis by (simp add: renderPage_def Let_def)
next
  case (Some pg)
  from assms show ?thesis
  proof
    assume "NODE_ENV e = Some ''production''"
    with Some show ?thesis
      by (simp add: renderPage_def Let_def split: prod.split sum.split)
  next
    assume "query r ''json'' = None"
    with Some show ?thesis
      by (simp add: renderPage_def Let_def split: prod.split sum.split)
  qed
qed

lemma path_of_query [simp]: "path_of (r\<lparr>query := qs\<rparr>) = path_of r"
  by (simp add: path_of_def)

lemma buildRenderedPage_query [simp]:
  "buildRenderedPage e (r\<lparr>query := qs, context := c\<rparr>) = buildRenderedPage e (r\<lparr>context := c\<rparr>)"
  by (simp add: buildRenderedPage_def path_of_def)

lemma buildMiniTocItems_query [simp]:
  "buildMiniTocItems e (r\<lparr>query := qs, context := c\<rparr>) = buildMiniTocItems e (r\<lparr>context := c\<rparr>)"
  by (simp add: buildMiniTocItems_def)

lemma composeTitle_query [simp]:
  "composeTitle e (r\<lparr>query := qs, context := c\<rparr>) pg = composeTitle e (r\<lparr>context := c\<rparr>) pg"
  by (simp add: composeTitle_def path_of_def)

lemma renderPage_query_irrelevant:
  assumes "NODE_ENV e = Some ''production''"
  shows "renderPage e (r\<lparr>query := qs\<rparr>) rs = renderPage e r rs"
  using assms
  by (simp add: renderPage_def Let_def cong: option.case_cong prod.case_cong sum.case_cong if_cong)

lemma env0_alive: "\<not> isConnectionDropped env0 n"
  by (simp add: env0_def)

lemma env0_render_ok: "\<not> isl (page_render env0 c)"
  by (simp add: env0_def)

lemma env0_minitoc_ok: "\<not> isl (getMiniTocItems env0 html level baseId)"
  by (simp add: env0_def)

text \<open>
  Claim C3. In production the debugging branch is never taken, whatever the query: no
  call of the middleware ends with \<^verbatim>\<open>res.json\<close>, the outcome is the one of
  the same request without any query parameter, and a request that goes through the
  whole pipeline (page present, not HEAD, connection alive at both checkpoints,
  collaborators that do not fail) ends with the delegation to the fallback handler.
\<close>

theorem production_never_debug_json:
  assumes "NODE_ENV e = Some ''production''"
  shows "(\<forall>v. completion (renderPage e r rs) \<noteq> Responded (RespondJson v))
       \<and> renderPage e r rs = renderPage e (r\<lparr>query := Map.empty\<rparr>) rs
       \<and> (page (context r) \<noteq> None \<and> method r \<noteq> ''HEAD''
            \<and> \<not> isConnectionDropped e 0 \<and> \<not> isConnectionDropped e 1
            \<and> (\<forall>c. \<not> isl (page_render e c))
            \<and> (\<forall>html level baseId. \<not> isl (getMiniTocItems e html level baseId))
          \<longrightarrow> completion (renderPage e r rs) = Responded Delegate)"
proof (intro conjI allI impI)
  fix v
  show "completion (renderPage e r rs) \<noteq> Responded (RespondJson v)"
    using assms by (simp add: renderPage_no_json)
next
  show "renderPage e r rs = renderPage e (r\<lparr>query := Map.empty\<rparr>) rs"
    using assms by (simp add: renderPage_query_irrelevant)
next
  assume a: "page (context r) \<noteq> None \<and> method r \<noteq> ''HEAD''
            \<and> \<not> isConnectionDropped e 0 \<and> \<not> isConnectionDropped e 1
            \<and> (\<forall>c. \<not> isl (page_render e c))
            \<and> (\<forall>html level baseId. \<not> isl (getMiniTocItems e html level baseId))"
  then obtain pg where pg: "page (context r) = Some pg" by auto
  show "completion (renderPage e r rs) = Responded Delegate"
    using renderPage_full(1) [OF pg, of e rs] a assms by simp
qed

theorem production_never_debug_json_witness:
  "NODE_ENV env_production = Some ''production''
   \<and> query (req_json ''page.title'') ''json'' = Some ''page.title''
   \<and> page (context (req_json ''page.title'')) \<noteq> None
   \<and> method (req_json ''page.title'') \<noteq> ''HEAD''
   \<and> \<not> isConnectionDropped env_production 0 \<and> \<not> isConnectionDropped env_production 1
   \<and> (\<forall>c. \<not> isl (page_render env_production c))
   \<and> (\<forall>html level baseId. \<not> isl (getMiniTocItems env_production html level baseId))
   \<and> completion (renderPage env_production (req_json ''page.title'') res0) = Responded Delegate"
proof -
  have h: "NODE_ENV env_production = Some ''production''"
    by (simp add: env_production_def)
  have a: "query (req_json ''page.title'') ''json'' = Some ''page.title''
     \<and> page (context (req_json ''page.title'')) \<noteq> None
     \<and> method (req_json ''page.title'') \<noteq> ''HEAD''
     \<and> \<not> isConnectionDropped env_production 0 \<and> \<not> isConnectionDropped env_production 1
     \<and> (\<forall>c. \<not> isl (page_render env_production c))
     \<and> (\<forall>html level baseId. \<not> isl (getMiniTocItems env_production html level baseId))"
    by (simp add: env_production_def env0_def req_json_def req0_def ctx0_def)
  show ?thesis
    using production_never_debug_json [OF h, of "req_json ''page.title''" res0] h a by blast
qed

subsection \<open>The debugging branch outside production\<close>

lemma env0_final_context:
  "ctx_out (renderPage env0 (req_json q) res0) =
     ctx0\<lparr>page := Some (page0\<lparr>languageVariants :=
                                 Some (JArr [JStr ''/ja/enterprise-server@3.5/graphql/reference/objects'']),
                              fullTitle := Some ''Objects - GitHub Enterprise Server 3.5 Docs''\<rparr>),
          renderedPage := Some ''<h1>Objects</h1><div>objects</div>'',
          miniTocItems := Some (JArr [])\<rparr>"
  by (simp add: renderPage_def Let_def req_json_def req0_def ctx0_def page0_def env0_def
        path_of_def buildRenderedPage_def buildMiniTocItems_def composeTitle_def endsWith_def)

lemma env0_reflect:
  "reflect env0 (ctx_out (renderPage env0 (req_json q) res0)) =
     [(''page'',
       JObj [(''titlePlainText'', JStr ''Objects''),
             (''effectiveDate'', JStr ''2022-01-01''),
             (''showMiniToc'', JBool True),
             (''miniTocMaxHeadingLevel'', JNum 2),
             (''languageVariants'',
              JArr [JStr ''/ja/enterprise-server@3.5/graphql/reference/objects'']),
             (''fullTitle'', JStr ''Objects - GitHub Enterprise Server 3.5 Docs'')]),
      (''currentVersion'', JStr ''enterprise-server@3.5''),
      (''site'', JObj [(''data'', JObj [(''ui'', JObj [(''header'',
          JObj [(''github_docs'', JStr ''GitHub Docs'')])])])]),
      (''graphql'', JObj
         [(''prerenderedObjectsForCurrentVersion'', JObj [(''html'', JStr ''<div>objects</div>'')]),
          (''prerenderedInputObjectsForCurrentVersion'',
             JObj [(''html'', JStr ''<div>input-objects</div>'')]),
          (''prerenderedMutationsForCurrentVersion'', JObj [(''html'', JStr ''<div>mutations</div>'')])]),
      (''renderedPage'', JStr ''<h1>Objects</h1><div>objects</div>''),
      (''miniTocItems'', JArr [])]"
proof -
  have "reflect env0 = context_tree"
    by (simp add: env0_def)
  then show ?thesis
    by (simp add: env0_final_context context_tree_def page_tree_def opt_val_def ctx0_def page0_def)
qed

lemma req_json_full:
  "completion (renderPage env0 (req_json q) res0) =
     Responded (RespondJson (debugJson env0 (ctx_out (renderPage env0 (req_json q) res0)) q))"
proof -
  have pg: "page (context (req_json q)) = Some page0"
    by (simp add: req_json_def req0_def ctx0_def)
  have m: "method (req_json q) \<noteq> ''HEAD''"
    by (simp add: req_json_def req0_def)
  have q: "query (req_json q) ''json'' = Some q"
    by (simp add: req_json_def)
  have n: "NODE_ENV env0 \<noteq> Some ''production''"
    by (simp add: env0_def)
  show ?thesis
    using renderPage_full(1) [OF pg m env0_alive env0_alive env0_render_ok env0_minitoc_ok, of res0] q n
    by simp
qed

text \<open>
  Claim C4, as stated, fails for a single-segment value: for \<^verbatim>\<open>?json=page\<close>, a
  value without a separator, the response is the page of the context, as the pipeline
  has left it, and not the listing of the keys.
\<close>

theorem single_segment_counterexample:
  "CHR ''.'' \<notin> set ''page''
   \<and> NODE_ENV env0 \<noteq> Some ''production''
   \<and> page (context (req_json ''page'')) \<noteq> None
   \<and> query (req_json ''page'') ''json'' = Some ''page''
   \<and> page (ctx_out (renderPage env0 (req_json ''page'') res0))
       = Some (page0\<lparr>languageVariants :=
                         Some (JArr [JStr ''/ja/enterprise-server@3.5/graphql/reference/objects'']),
                      fullTitle := Some ''Objects - GitHub Enterprise Server 3.5 Docs''\<rparr>)
   \<and> completion (renderPage env0 (req_json ''page'') res0)
       = Responded (RespondJson
           (JObj [(''titlePlainText'', JStr ''Objects''),
                  (''effectiveDate'', JStr ''2022-01-01''),
                  (''showMiniToc'', JBool True),
                  (''miniTocMaxHeadingLevel'', JNum 2),
                  (''languageVariants'',
                   JArr [JStr ''/ja/enterprise-server@3.5/graphql/reference/objects'']),
                  (''fullTitle'', JStr ''Objects - GitHub Enterprise Server 3.5 Docs'')]))
   \<and> completion (renderPage env0 (req_json ''page'') res0)
       \<noteq> Responded (RespondJson (keysListing env0 (ctx_out (renderPage env0 (req_json ''page'') res0))))"
proof -
  have a: "NODE_ENV env0 \<noteq> Some ''production''"
    by (simp add: env0_def)
  have b: "page (context (req_json ''page'')) \<noteq> None \<and> query (req_json ''page'') ''json'' = Some ''page''"
    by (simp add: req_json_def req0_def ctx0_def)
  have c: "debugJson env0 (ctx_out (renderPage env0 (req_json ''page'') res0)) ''page''
             = JObj [(''titlePlainText'', JStr ''Objects''),
                  (''effectiveDate'', JStr ''2022-01-01''),
                  (''showMiniToc'', JBool True),
                  (''miniTocMaxHeadingLevel'', JNum 2),
                  (''languageVariants'',
                   JArr [JStr ''/ja/enterprise-server@3.5/graphql/reference/objects'']),
                  (''fullTitle'', JStr ''Objects - GitHub Enterprise Server 3.5 Docs'')]"
    by (simp add: debugJson_def get_def env0_reflect)
  have d: "page (ctx_out (renderPage env0 (req_json ''page'') res0))
       = Some (page0\<lparr>languageVariants :=
                         Some (JArr [JStr ''/ja/enterprise-server@3.5/graphql/reference/objects'']),
                      fullTitle := Some ''Objects - GitHub Enterprise Server 3.5 Docs''\<rparr>)"
    by (simp add: env0_final_context)
  have e: "completion (renderPage env0 (req_json ''page'') res0)
       \<noteq> Responded (RespondJson (keysListing env0 (ctx_out (renderPage env0 (req_json ''page'') res0))))"
    by (simp add: req_json_full c keysListing_def)
  show ?thesis
    using a b d e by (simp add: req_json_full c)
qed

text \<open>
  Claim C4, amended. Outside production, on a request that goes through the whole
  pipeline and carries the query parameter \<^verbatim>\<open>json\<close>, the response is decided by
  the length of the value, as \<^verbatim>\<open>req.query.json.length\<close> counts it: a value of
  length at most one (the bare parameter included, and a lone separator) gives the
  advisory message with the top-level keys of the context; a longer value, with or
  without a separator, gives the lookup of that dotted path in the context, through
  objects by property name and through arrays by index, which is undefined when the
  path does not resolve.
\<close>

theorem debug_json_by_length:
  assumes "NODE_ENV e \<noteq> Some ''production''"
    and "page (context r) = Some pg" and "method r \<noteq> ''HEAD''"
    and "\<not> isConnectionDropped e 0" and "\<not> isConnectionDropped e 1"
    and "\<And>c. \<not> isl (page_render e c)"
    and "\<And>html level baseId. \<not> isl (getMiniTocItems e html level baseId)"
    and "query r ''json'' = Some q"
  shows "completion (renderPage e r rs) =
           Responded (RespondJson
             (if 1 < length q
              then (case resolve (JObj (reflect e (ctx_out (renderPage e r rs)))) (split_on (CHR ''.'') q) of
                      None \<Rightarrow> JUndefined
                    | Some v \<Rightarrow> v)
              else JObj [(''message'', JStr advisory),
                         (''keys'', JArr (map (JStr \<circ> fst) (reflect e (ctx_out (renderPage e r rs)))))]))"
  using renderPage_full(1) [OF assms(2-7), of rs] assms(1,8)
  by (simp add: debugJson_def get_def keysListing_def)

lemma req_json_facts:
  "page (context (req_json q)) = Some page0"
  "method (req_json q) \<noteq> ''HEAD''"
  "query (req_json q) ''json'' = Some q"
  by (simp_all add: req_json_def req0_def ctx0_def)

theorem debug_json_by_length_witness:
  "NODE_ENV env0 \<noteq> Some ''production''
   \<and> page (context (req_json ''page.nope'')) = Some page0
   \<and> method (req_json ''page.nope'') \<noteq> ''HEAD''
   \<and> \<not> isConnectionDropped env0 0 \<and> \<not> isConnectionDropped env0 1
   \<and> (\<forall>c. \<not> isl (page_render env0 c))
   \<and> (\<forall>html level baseId. \<not> isl (getMiniTocItems env0 html level baseId))
   \<and> query (req_json ''page.nope'') ''json'' = Some ''page.nope''
   \<and> completion (renderPage env0 (req_json ''page.nope'') res0) = Responded (RespondJson JUndefined)
   \<and> completion (renderPage env0 (req_json ''page.languageVariants.0'') res0)
       = Responded (RespondJson (JStr ''/ja/enterprise-server@3.5/graphql/reference/objects''))
   \<and> completion (renderPage env0 (req_json ''page.languageVariants.1'') res0)
       = Responded (RespondJson JUndefined)
   \<and> completion (renderPage env0 (req_json ''site.data.ui.header.github_docs'') res0)
       = Responded (RespondJson (JStr ''GitHub Docs''))
   \<and> completion (renderPage env0 (req_json []) res0)
       = Responded (RespondJson (JObj [(''message'', JStr advisory),
            (''keys'', JArr [JStr ''page'', JStr ''currentVersion'', JStr ''site'', JStr ''graphql'',
                             JStr ''renderedPage'', JStr ''miniTocItems''])]))"
proof -
  have n: "NODE_ENV env0 \<noteq> Some ''production''"
    by (simp add: env0_def)
  note t = debug_json_by_length [OF n req_json_facts(1,2) env0_alive env0_alive env0_render_ok
      env0_minitoc_ok req_json_facts(3), of _ res0]
  show ?thesis
    using t [of "''page.nope''"] t [of "''page.languageVariants.0''"]
      t [of "''page.languageVariants.1''"] t [of "''site.data.ui.header.github_docs''"] t [of "[]"]
      n req_json_facts env0_alive env0_render_ok env0_minitoc_ok
    by (simp add: env0_reflect digit_def)
qed

lemma debug_json_examples:
  "completion (renderPage env0 (req_json ''page.fullTitle'') res0)
     = Responded (RespondJson (JStr ''Objects - GitHub Enterprise Server 3.5 Docs''))"
  "completion (renderPage env0 (req_json ''.'') res0) =
     Responded (RespondJson (JObj [(''message'', JStr advisory),
            (''keys'', JArr [JStr ''page'', JStr ''currentVersion'', JStr ''site'', JStr ''graphql'',
                             JStr ''renderedPage'', JStr ''miniTocItems''])]))"
  "completion (renderPage env0 (req_json ''page.languageVariants.00'') res0)
     = Responded (RespondJson JUndefined)"
  by (simp_all add: req_json_full debugJson_def get_def keysListing_def env0_reflect digit_def)

subsection \<open>Dropped connections\<close>

lemma renderPage_dropped_first:
  assumes "page (context r) = Some pg" and "method r \<noteq> ''HEAD''" and "isConnectionDropped e 0"
  shows "renderPage e r rs =
           \<lparr>completion = Stopped,
            res_out = (if truthy (effectiveDate pg)
                       then setHeader ''Last-Modified'' (toUTCString e (the (effectiveDate pg)))
                              (htmlCacheControl e rs)
                       else htmlCacheControl e rs),
            ctx_out = (context r)\<lparr>page := Some (pg\<lparr>languageVariants := Some (getLanguageVariants e (path_of r))\<rparr>)\<rparr>,
            calls = [GetLanguageVariants (path_of r), IsConnectionDropped]\<rparr>"
  using assms by (simp add: renderPage_def Let_def)

lemma renderPage_title_untouched:
  assumes "page (context r) = Some pg" and "isConnectionDropped e 0 \<or> isConnectionDropped e 1"
  shows "map_option fullTitle (page (ctx_out (renderPage e r rs))) = Some (fullTitle pg)"
    and "completion (renderPage e r rs) \<noteq> Responded (RespondJson v)"
    and "completion (renderPage e r rs) \<noteq> Responded Delegate"
  using assms
  by (auto simp add: renderPage_def Let_def split: prod.split sum.split)

lemma renderPage_dropped_second:
  assumes pg: "page (context r) = Some pg" and m: "method r \<noteq> ''HEAD''"
    and d0: "\<not> isConnectionDropped e 0" and d1: "isConnectionDropped e 1"
    and rok: "\<And>c. \<not> isl (page_render e c)"
    and mok: "\<And>html level baseId. \<not> isl (getMiniTocItems e html level baseId)"
  shows "completion (renderPage e r rs) = Stopped"
    and "PageRender (path_of r) \<in> set (calls (renderPage e r rs))"
    and "renderedPage (ctx_out (renderPage e r rs)) \<noteq> None"
proof -
  let ?c1 = "(context r)\<lparr>page := Some (pg\<lparr>languageVariants := Some (getLanguageVariants e (path_of r))\<rparr>)\<rparr>"
  obtain html where h: "buildRenderedPage e (r\<lparr>context := ?c1\<rparr>) = ([PageRender (path_of (r\<lparr>context := ?c1\<rparr>))], Inr html)"
    using buildRenderedPage_ok [of "r\<lparr>context := ?c1\<rparr>" _ e] rok by auto
  let ?c2 = "?c1\<lparr>renderedPage := Some html\<rparr>"
  obtain k items where i: "buildMiniTocItems e (r\<lparr>context := ?c2\<rparr>) = (k, Inr items)"
    using buildMiniTocItems_ok [of "r\<lparr>context := ?c2\<rparr>" _ e] mok by auto
  show "completion (renderPage e r rs) = Stopped"
    using pg m d0 d1 h i by (simp add: renderPage_def Let_def)
  show "PageRender (path_of r) \<in> set (calls (renderPage e r rs))"
    using pg m d0 d1 h i by (simp add: renderPage_def Let_def path_of_def)
  show "renderedPage (ctx_out (renderPage e r rs)) \<noteq> None"
    using pg m d0 d1 h i by (simp add: renderPage_def Let_def)
qed

text \<open>
  Claim C5. With a page present and a method other than HEAD: when the connection
  monitor reports the connection dropped at its first consultation, the page renderer is
  not called, nothing is rendered and the middleware stops without a terminal action;
  when it reports it dropped at its second consultation (the collaborators not failing),
  the rendering has been done, the title is not composed and the middleware stops
  without a terminal action.
\<close>

theorem dropped_connection_stops:
  assumes "page (context r) = Some pg" and "method r \<noteq> ''HEAD''"
  shows "(isConnectionDropped e 0 \<longrightarrow>
            completion (renderPage e r rs) = Stopped
            \<and> (\<forall>t. completion (renderPage e r rs) \<noteq> Responded t)
            \<and> (\<forall>p. PageRender p \<notin> set (calls (renderPage e r rs)))
            \<and> renderedPage (ctx_out (renderPage e r rs)) = renderedPage (context r))
       \<and> (\<not> isConnectionDropped e 0 \<and> isConnectionDropped e 1
            \<and> (\<forall>c. \<not> isl (page_render e c))
            \<and> (\<forall>html level baseId. \<not> isl (getMiniTocItems e html level baseId)) \<longrightarrow>
            completion (renderPage e r rs) = Stopped
            \<and> (\<forall>t. completion (renderPage e r rs) \<noteq> Responded t)
            \<and> PageRender (path_of r) \<in> set (calls (renderPage e r rs))
            \<and> renderedPage (ctx_out (renderPage e r rs)) \<noteq> None
            \<and> map_option fullTitle (page (ctx_out (renderPage e r rs))) = Some (fullTitle pg))"
proof -
  have first: "completion (renderPage e r rs) = Stopped
        \<and> (\<forall>t. completion (renderPage e r rs) \<noteq> Responded t)
        \<and> (\<forall>p. PageRender p \<notin> set (calls (renderPage e r rs)))
        \<and> renderedPage (ctx_out (renderPage e r rs)) = renderedPage (context r)"
    if d: "isConnectionDropped e 0"
    by (simp add: renderPage_dropped_first [OF assms d])
  have second: "completion (renderPage e r rs) = Stopped
        \<and> (\<forall>t. completion (renderPage e r rs) \<noteq> Responded t)
        \<and> PageRender (path_of r) \<in> set (calls (renderPage e r rs))
        \<and> renderedPage (ctx_out (renderPage e r rs)) \<noteq> None
        \<and> map_option fullTitle (page (ctx_out (renderPage e r rs))) = Some (fullTitle pg)"
    if a: "\<not> isConnectionDropped e 0 \<and> isConnectionDropped e 1
            \<and> (\<forall>c. \<not> isl (page_render e c))
            \<and> (\<forall>html level baseId. \<not> isl (getMiniTocItems e html level baseId))"
  proof -
    have s: "completion (renderPage e r rs) = Stopped"
      using renderPage_dropped_second(1) [OF assms, of e rs] a by blast
    have p: "PageRender (path_of r) \<in> set (calls (renderPage e r rs))"
      using renderPage_dropped_second(2) [OF assms, of e rs] a by blast
    have n: "renderedPage (ctx_out (renderPage e r rs)) \<noteq> None"
      using renderPage_dropped_second(3) [OF assms, of e rs] a by blast
    have t: "map_option fullTitle (page (ctx_out (renderPage e r rs))) = Some (fullTitle pg)"
      using renderPage_title_untouched(1) [OF assms(1), of e rs] a by blast
    show ?thesis
      using s p n t by simp
  qed
  show ?thesis
    using first second by blast
qed

theorem dropped_connection_stops_witness:
  "page (context req0) = Some page0 \<and> method req0 \<noteq> ''HEAD''
   \<and> isConnectionDropped (env_dropped 0) 0
   \<and> completion (renderPage (env_dropped 0) req0 res0) = Stopped
   \<and> renderedPage (ctx_out (renderPage (env_dropped 0) req0 res0)) = None
   \<and> \<not> isConnectionDropped (env_dropped 1) 0 \<and> isConnectionDropped (env_dropped 1) 1
   \<and> (\<forall>c. \<not> isl (page_render (env_dropped 1) c))
   \<and> (\<forall>html level baseId. \<not> isl (getMiniTocItems (env_dropped 1) html level baseId))
   \<and> completion (renderPage (env_dropped 1) req0 res0) = Stopped
   \<and> renderedPage (ctx_out (renderPage (env_dropped 1) req0 res0)) \<noteq> None
   \<and> map_option fullTitle (page (ctx_out (renderPage (env_dropped 1) req0 res0))) = Some None"
proof -
  have pg: "page (context req0) = Some page0"
    by (simp add: req0_def ctx0_def)
  have m: "method req0 \<noteq> ''HEAD''"
    by (simp add: req0_def)
  have a: "isConnectionDropped (env_dropped 0) 0"
    by (simp add: env_dropped_def)
  have b: "\<not> isConnectionDropped (env_dropped 1) 0 \<and> isConnectionDropped (env_dropped 1) 1
           \<and> (\<forall>c. \<not> isl (page_render (env_dropped 1) c))
           \<and> (\<forall>html level baseId. \<not> isl (getMiniTocItems (env_dropped 1) html level baseId))"
    by (simp add: env_dropped_def env0_def)
  have c: "renderedPage (context req0) = None" "fullTitle page0 = None"
    by (simp_all add: req0_def ctx0_def page0_def)
  show ?thesis
    using dropped_connection_stops [OF pg m, of "env_dropped 0" res0]
      dropped_connection_stops [OF pg m, of "env_dropped 1" res0] pg m a b c
    by simp
qed

text \<open>
  Claim C10. When the first checkpoint stops the middleware, what was done before stays
  done: the cache-control header of the html policy is on the response, the
  \<^verbatim>\<open>Last-Modified\<close> header is set when the page declares an effective date (and
  left as it was otherwise), and the language variants are on the page; no terminal
  action is produced.
\<close>

theorem first_checkpoint_abort_keeps_effects:
  assumes "page (context r) = Some pg" and "method r \<noteq> ''HEAD''" and "isConnectionDropped e 0"
  shows "completion (renderPage e r rs) = Stopped
       \<and> headers (res_out (renderPage e r rs)) ''Cache-Control'' = Some (no_cache_directive e)
       \<and> headers (res_out (renderPage e r rs)) ''Last-Modified'' =
           (if truthy (effectiveDate pg) then Some (toUTCString e (the (effectiveDate pg)))
            else headers rs ''Last-Modified'')
       \<and> page (ctx_out (renderPage e r rs)) =
           Some (pg\<lparr>languageVariants := Some (getLanguageVariants e (path_of r))\<rparr>)"
  by (simp add: renderPage_dropped_first [OF assms] setHeader_def htmlCacheControl_def
        cacheControlFactory_def no_cache_directive_def)

theorem first_checkpoint_abort_keeps_effects_witness:
  "page (context req0) = Some page0 \<and> method req0 \<noteq> ''HEAD''
   \<and> isConnectionDropped (env_dropped 0) 0
   \<and> completion (renderPage (env_dropped 0) req0 res0) = Stopped
   \<and> headers (res_out (renderPage (env_dropped 0) req0 res0)) ''Cache-Control'' = Some ''private, no-store''
   \<and> headers (res_out (renderPage (env_dropped 0) req0 res0)) ''Last-Modified''
       = Some ''Sat, 01 Jan 2022 00:00:00 GMT''
   \<and> map_option languageVariants (page (ctx_out (renderPage (env_dropped 0) req0 res0)))
       = Some (Some (JArr [JStr ''/ja/enterprise-server@3.5/graphql/reference/objects'']))"
proof -
  have pg: "page (context req0) = Some page0"
    by (simp add: req0_def ctx0_def)
  have m: "method req0 \<noteq> ''HEAD''"
    by (simp add: req0_def)
  have a: "isConnectionDropped (env_dropped 0) 0"
    by (simp add: env_dropped_def)
  have c: "no_cache_directive (env_dropped 0) = ''private, no-store''"
    "truthy (effectiveDate page0)"
    "toUTCString (env_dropped 0) (the (effectiveDate page0)) = ''Sat, 01 Jan 2022 00:00:00 GMT''"
    "getLanguageVariants (env_dropped 0) (path_of req0)
       = JArr [JStr ''/ja/enterprise-server@3.5/graphql/reference/objects'']"
    by (simp_all add: env_dropped_def env0_def no_cache_directive_def page0_def path_of_def req0_def)
  show ?thesis
    using first_checkpoint_abort_keeps_effects [OF pg m a, of res0] pg m a c
    by simp
qed

subsection \<open>The title\<close>

text \<open>
  The two string tests are the ones of JavaScript: \<open>str_includes\<close> holds of the
  strings that contain the other one as a contiguous part, \<open>endsWith\<close> of those
  that end with it.
\<close>

lemma str_includes_iff: "str_includes s sub \<longleftrightarrow> (\<exists>a b. s = a @ sub @ b)"
proof (induction s)
  case Nil
  then show ?case by auto
next
  case (Cons x xs)
  show ?case
  proof
    assume "str_includes (x # xs) sub"
    then consider "take (length sub) (x # xs) = sub" | "str_includes xs sub" by auto
    then show "\<exists>a b. x # xs = a @ sub @ b"
    proof cases
      case 1
      then have "x # xs = [] @ sub @ drop (length sub) (x # xs)"
        by (metis append_Nil append_take_drop_id)
      then show ?thesis by blast
    next
      case 2
      with Cons.IH obtain a b where "xs = a @ sub @ b" by auto
      then have "x # xs = (x # a) @ sub @ b" by simp
      then show ?thesis by blast
    qed
  next
    assume "\<exists>a b. x # xs = a @ sub @ b"
    then obtain a b where ab: "x # xs = a @ sub @ b" by auto
    show "str_includes (x # xs) sub"
    proof (cases a)
      case Nil
      with ab have "take (length sub) (x # xs) = sub" by simp
      then show ?thesis by simp
    next
      case (Cons y ys)
      with ab have "xs = ys @ sub @ b" by simp
      with Cons.IH have "str_includes xs sub" by blast
      then show ?thesis by simp
    qed
  qed
qed

lemma endsWith_append: "endsWith (a @ b) b"
  by (simp add: endsWith_def)

lemma endsWith_iff: "endsWith s suf \<longleftrightarrow> (\<exists>a. s = a @ suf)"
proof
  assume "endsWith s suf"
  then have "drop (length s - length suf) s = suf"
    by (simp add: endsWith_def)
  then have "s = take (length s - length suf) s @ suf"
    by (metis append_take_drop_id)
  then show "\<exists>a. s = a @ suf" ..
next
  assume "\<exists>a. s = a @ suf"
  then show "endsWith s suf"
    by (auto simp add: endsWith_append)
qed

text \<open>
  Claim C6. On a request that goes through the whole pipeline, whose path is not the
  homepage and whose current version is not the default one and has an entry in the
  catalog, the title is the plain title, \<open>'' - ''\<close>, the entry's title, prefixed with
  \<open>''GitHub ''\<close> exactly when it does not contain \<open>''GitHub''\<close>, and \<open>'' Docs''\<close>. For
  the catalog title \<open>''Enterprise Server 3.5''\<close> the title ends with
  \<open>''GitHub Enterprise Server 3.5 Docs''\<close>.
\<close>

theorem title_for_catalog_version:
  assumes "page (context r) = Some pg" and "method r \<noteq> ''HEAD''"
    and "\<not> isConnectionDropped e 0" and "\<not> isConnectionDropped e 1"
    and "\<And>c. \<not> isl (page_render e c)"
    and "\<And>html level baseId. \<not> isl (getMiniTocItems e html level baseId)"
    and "\<not> homepagePath e (path_of r)"
    and "currentVersion (context r) \<noteq> ''free-pro-team@latest''"
    and "allVersions e (currentVersion (context r)) = Some v"
  shows "map_option fullTitle (page (ctx_out (renderPage e r rs))) =
           Some (Some (titlePlainText pg @ '' - ''
                       @ (if str_includes (versionTitle v) ''GitHub'' then [] else ''GitHub '')
                       @ versionTitle v @ '' Docs''))
       \<and> (versionTitle v = ''Enterprise Server 3.5'' \<longrightarrow>
            (\<exists>t. map_option fullTitle (page (ctx_out (renderPage e r rs))) = Some (Some t)
                 \<and> endsWith t ''GitHub Enterprise Server 3.5 Docs''))"
proof -
  obtain pg' where p: "page (ctx_out (renderPage e r rs)) = Some pg'"
    "titlePlainText pg' = titlePlainText pg" "fullTitle pg' = Some (composeTitle e r pg')"
    using renderPage_full(2) [OF assms(1-6), of rs] by blast
  have c: "composeTitle e r pg' =
             titlePlainText pg @ '' - ''
             @ (if str_includes (versionTitle v) ''GitHub'' then [] else ''GitHub '')
             @ versionTitle v @ '' Docs''"
    using assms(7-9) p(2) by (simp add: composeTitle_def Let_def)
  have t: "map_option fullTitle (page (ctx_out (renderPage e r rs))) =
           Some (Some (titlePlainText pg @ '' - ''
                       @ (if str_includes (versionTitle v) ''GitHub'' then [] else ''GitHub '')
                       @ versionTitle v @ '' Docs''))"
    using p(1,3) c by simp
  have "endsWith ((titlePlainText pg @ '' - '') @ ''GitHub Enterprise Server 3.5 Docs'')
          ''GitHub Enterprise Server 3.5 Docs''"
    by (rule endsWith_append)
  then have "endsWith (titlePlainText pg @ '' - '' @ ''GitHub Enterprise Server 3.5 Docs'')
          ''GitHub Enterprise Server 3.5 Docs''"
    by simp
  with t show ?thesis by auto
qed

theorem title_for_catalog_version_witness:
  "page (context req0) = Some page0 \<and> method req0 \<noteq> ''HEAD''
   \<and> \<not> isConnectionDropped env0 0 \<and> \<not> isConnectionDropped env0 1
   \<and> (\<forall>c. \<not> isl (page_render env0 c))
   \<and> (\<forall>html level baseId. \<not> isl (getMiniTocItems env0 html level baseId))
   \<and> \<not> homepagePath env0 (path_of req0)
   \<and> currentVersion (context req0) \<noteq> ''free-pro-team@latest''
   \<and> allVersions env0 (currentVersion (context req0)) = Some \<lparr>versionTitle = ''Enterprise Server 3.5''\<rparr>
   \<and> map_option fullTitle (page (ctx_out (renderPage env0 req0 res0)))
       = Some (Some ''Objects - GitHub Enterprise Server 3.5 Docs'')
   \<and> endsWith ''Objects - GitHub Enterprise Server 3.5 Docs'' ''GitHub Enterprise Server 3.5 Docs''"
proof -
  have pg: "page (context req0) = Some page0"
    by (simp add: req0_def ctx0_def)
  have m: "method req0 \<noteq> ''HEAD''"
    by (simp add: req0_def)
  have h: "\<not> homepagePath env0 (path_of req0)"
    by (simp add: env0_def path_of_def req0_def)
  have cv: "currentVersion (context req0) \<noteq> ''free-pro-team@latest''"
    by (simp add: req0_def ctx0_def)
  have av: "allVersions env0 (currentVersion (context req0)) = Some \<lparr>versionTitle = ''Enterprise Server 3.5''\<rparr>"
    by (simp add: req0_def ctx0_def env0_def)
  have i: "\<not> str_includes ''Enterprise Server 3.5'' ''GitHub''"
    by simp
  have t: "titlePlainText page0 = ''Objects''"
    by (simp add: page0_def)
  show ?thesis
    using title_for_catalog_version [OF pg m env0_alive env0_alive env0_render_ok env0_minitoc_ok h cv av, of res0]
      pg m h cv av env0_alive env0_render_ok env0_minitoc_ok
    by (simp add: i t endsWith_def)
qed

subsection \<open>The rendering step\<close>

lemma endsWith_both:
  assumes "endsWith p a" and "endsWith p b" and "length a \<le> length b"
  shows "endsWith b a"
proof -
  from assms have la: "length a \<le> length p" and lb: "length b \<le> length p"
    and a: "drop (length p - length a) p = a" and b: "drop (length p - length b) p = b"
    by (simp_all add: endsWith_def)
  have "drop (length b - length a) b = drop (length b - length a) (drop (length p - length b) p)"
    using b by simp
  also have "\<dots> = drop (length p - length a) p"
    using assms(3) lb by simp
  finally show ?thesis
    using a assms(3) by (simp add: endsWith_def)
qed

lemma suffixes_exclusive:
  "\<not> (endsWith p ''graphql/reference/objects'' \<and> endsWith p ''graphql/reference/input-objects'')"
  "\<not> (endsWith p ''graphql/reference/objects'' \<and> endsWith p ''graphql/reference/mutations'')"
  "\<not> (endsWith p ''graphql/reference/input-objects'' \<and> endsWith p ''graphql/reference/mutations'')"
proof -
  have 1: "\<not> endsWith ''graphql/reference/input-objects'' ''graphql/reference/objects''"
    by (simp add: endsWith_def)
  have 2: "\<not> endsWith ''graphql/reference/mutations'' ''graphql/reference/objects''"
    by (simp add: endsWith_def)
  have 3: "\<not> endsWith ''graphql/reference/input-objects'' ''graphql/reference/mutations''"
    by (simp add: endsWith_def)
  show "\<not> (endsWith p ''graphql/reference/objects'' \<and> endsWith p ''graphql/reference/input-objects'')"
    using endsWith_both [of p "''graphql/reference/objects''" "''graphql/reference/input-objects''"] 1
    by auto
  show "\<not> (endsWith p ''graphql/reference/objects'' \<and> endsWith p ''graphql/reference/mutations'')"
    using endsWith_both [of p "''graphql/reference/objects''" "''graphql/reference/mutations''"] 2
    by auto
  show "\<not> (endsWith p ''graphql/reference/input-objects'' \<and> endsWith p ''graphql/reference/mutations'')"
    using endsWith_both [of p "''graphql/reference/mutations''" "''graphql/reference/input-objects''"] 3
    by auto
qed

text \<open>
  Claim C7. When the base renderer returns, the rendering step returns its output followed
  by the prerendered fragment of the suffix that ends the path (objects, input objects or
  mutations, of the current version), and its output alone when no suffix ends the path.
  The base renderer is called once, and a path ends with at most one of the three
  suffixes, so at most one fragment is appended.
\<close>

theorem rendered_page_augmented:
  assumes "page (context r) = Some pg" and "page_render e (context r) = Inr base"
  shows "snd (buildRenderedPage e r) =
           Inr (base @
             (if endsWith (path_of r) ''graphql/reference/objects''
              then prerenderedObjectsForCurrentVersion (context r)
              else if endsWith (path_of r) ''graphql/reference/input-objects''
              then prerenderedInputObjectsForCurrentVersion (context r)
              else if endsWith (path_of r) ''graphql/reference/mutations''
              then prerenderedMutationsForCurrentVersion (context r)
              else []))
       \<and> fst (buildRenderedPage e r) = [PageRender (path_of r)]
       \<and> length (filter (endsWith (path_of r))
            [''graphql/reference/objects'', ''graphql/reference/input-objects'',
             ''graphql/reference/mutations'']) \<le> 1"
  using assms suffixes_exclusive [of "path_of r"]
  by (simp add: buildRenderedPage_def Let_def)

lemma req_path_facts:
  "page (context (req_path p)) = Some page0"
  "page_render env0 (context (req_path p)) = Inr ''<h1>Objects</h1>''"
  "path_of (req_path p) = p"
  "prerenderedObjectsForCurrentVersion (context (req_path p)) = ''<div>objects</div>''"
  "prerenderedInputObjectsForCurrentVersion (context (req_path p)) = ''<div>input-objects</div>''"
  "prerenderedMutationsForCurrentVersion (context (req_path p)) = ''<div>mutations</div>''"
  by (simp_all add: req_path_def req0_def ctx0_def env0_def path_of_def)

theorem rendered_page_augmented_witness:
  "page (context (req_path ''/en/graphql/reference/objects'')) = Some page0
   \<and> page_render env0 (context (req_path ''/en/graphql/reference/objects'')) = Inr ''<h1>Objects</h1>''
   \<and> snd (buildRenderedPage env0 (req_path ''/en/graphql/reference/objects''))
       = Inr ''<h1>Objects</h1><div>objects</div>''
   \<and> snd (buildRenderedPage env0 (req_path ''/en/graphql/reference/input-objects''))
       = Inr ''<h1>Objects</h1><div>input-objects</div>''
   \<and> snd (buildRenderedPage env0 (req_path ''/en/graphql/reference/mutations''))
       = Inr ''<h1>Objects</h1><div>mutations</div>''
   \<and> snd (buildRenderedPage env0 (req_path ''/en/graphql/reference/queries''))
       = Inr ''<h1>Objects</h1>''"
  using rendered_page_augmented [OF req_path_facts(1,2), of "''/en/graphql/reference/objects''"]
      rendered_page_augmented [OF req_path_facts(1,2), of "''/en/graphql/reference/input-objects''"]
      rendered_page_augmented [OF req_path_facts(1,2), of "''/en/graphql/reference/mutations''"]
      rendered_page_augmented [OF req_path_facts(1,2), of "''/en/graphql/reference/queries''"]
  by (simp add: req_path_facts endsWith_def)

subsection \<open>The diagnostic of the missing page\<close>

text \<open>
  Claim C8, as stated, fails in development mode: there, with the redirect-not-found hint
  on the context, the diagnostic is written.
\<close>

theorem development_diagnostic_counterexample:
  "NODE_ENV env0 = Some ''development''
   \<and> page (context req_missing) = None
   \<and> redirectNotFound (context req_missing) = Some ''/en/old''
   \<and> calls (renderPage env0 req_missing res0) = [ConsoleError (redirectDiagnostic ''/en/old'')]"
  by (simp add: renderPage_def Let_def req_missing_def env0_def)

text \<open>
  Claim C8, amended. On the missing-page path the diagnostic about the failed redirect is
  written exactly when \<^verbatim>\<open>NODE_ENV\<close> is not \<^verbatim>\<open>test\<close> and the
  redirect-not-found hint is truthy; it is the only call made, and the terminal action,
  the response and the context are the same with and without it.
\<close>

theorem redirect_diagnostic_unless_test:
  assumes "page (context r) = None"
  shows "calls (renderPage e r rs) =
           (if NODE_ENV e \<noteq> Some ''test'' \<and> truthy (redirectNotFound (context r))
            then [ConsoleError (redirectDiagnostic (the (redirectNotFound (context r))))]
            else [])
       \<and> (\<exists>msg. ConsoleError msg \<in> set (calls (renderPage e r rs))) =
           (NODE_ENV e \<noteq> Some ''test'' \<and> truthy (redirectNotFound (context r)))
       \<and> completion (renderPage e r rs) = Responded RespondNotFound
       \<and> res_out (renderPage e r rs) = noCacheControl e rs
       \<and> ctx_out (renderPage e r rs) = context r"
  using assms by (simp add: renderPage_def Let_def)

theorem redirect_diagnostic_unless_test_witness:
  "page (context req_missing) = None
   \<and> NODE_ENV env0 \<noteq> Some ''test'' \<and> truthy (redirectNotFound (context req_missing))
   \<and> calls (renderPage env0 req_missing res0) = [ConsoleError (redirectDiagnostic ''/en/old'')]
   \<and> completion (renderPage env0 req_missing res0) = Responded RespondNotFound
   \<and> NODE_ENV env_test = Some ''test''
   \<and> calls (renderPage env_test req_missing res0) = []
   \<and> completion (renderPage env_test req_missing res0) = Responded RespondNotFound"
proof -
  have h: "page (context req_missing) = None"
    by (simp add: req_missing_def)
  have a: "NODE_ENV env0 \<noteq> Some ''test''" "NODE_ENV env_test = Some ''test''"
    "truthy (redirectNotFound (context req_missing))"
    "the (redirectNotFound (context req_missing)) = ''/en/old''"
    by (simp_all add: env0_def env_test_def req_missing_def)
  show ?thesis
    using redirect_diagnostic_unless_test [OF h, of env0 res0]
      redirect_diagnostic_unless_test [OF h, of env_test res0] h a
    by simp
qed

subsection \<open>The cache-control policies\<close>

lemma headers_htmlCacheControl:
  "headers (htmlCacheControl e rs) ''Cache-Control'' = Some (no_cache_directive e)"
  by (simp add: htmlCacheControl_def cacheControlFactory_def no_cache_directive_def)

lemma headers_last_modified:
  "headers (setHeader ''Last-Modified'' v rs) ''Cache-Control'' = headers rs ''Cache-Control''"
  by (simp add: setHeader_def)

lemma renderPage_cache_control:
  "headers (res_out (renderPage e r rs)) ''Cache-Control'' = Some (no_cache_directive e)"
  by (simp add: renderPage_def Let_def headers_noCacheControl headers_htmlCacheControl
        headers_last_modified split: option.split prod.split sum.split)

text \<open>
  Claim C9. The no-cache policy and the html policy are the same function of the
  response: both set the \<^verbatim>\<open>Cache-Control\<close> header to the no-cache directive.
  However a call of the middleware ends, the response carries that directive.
\<close>

theorem cache_policies_identical:
  "noCacheControl e = htmlCacheControl e
   \<and> headers (noCacheControl e rs) ''Cache-Control'' = Some (no_cache_directive e)
   \<and> headers (htmlCacheControl e rs) ''Cache-Control'' = Some (no_cache_directive e)
   \<and> headers (res_out (renderPage e r rs)) ''Cache-Control'' = Some (no_cache_directive e)"
  by (simp add: noCacheControl_def htmlCacheControl_def cacheControlFactory_def
        no_cache_directive_def renderPage_cache_control [unfolded no_cache_directive_def])

end
